theory Spec2Isabelle
  imports Main
begin

section \<open>Go values used by logger.go\<close>

text \<open>
  The Go \<open>error\<close> interface. The errors that reach logger.go come from the standard
  library: \<open>*os.PathError\<close> (operation, path, cause), \<open>os.ErrInvalid\<close> (a method called
  on a nil \<open>*os.File\<close>), \<open>os.ErrClosed\<close>, and plain text errors (json, url).
\<close>

datatype Errno = ENOENT | EACCES | EEXIST | ENOTDIR | EISDIR | EBADF

datatype error = PathError string string Errno | ErrInvalid | ErrClosed | errorString string

fun Errno_Error :: "Errno \<Rightarrow> string" where
  "Errno_Error ENOENT = ''no such file or directory''"
| "Errno_Error EACCES = ''permission denied''"
| "Errno_Error EEXIST = ''file exists''"
| "Errno_Error ENOTDIR = ''not a directory''"
| "Errno_Error EISDIR = ''is a directory''"
| "Errno_Error EBADF = ''bad file descriptor''"

text \<open>The method \<open>err.Error()\<close>.\<close>

fun err_Error :: "error \<Rightarrow> string" where
  "err_Error (PathError op path e) = op @ '' '' @ path @ '': '' @ Errno_Error e"
| "err_Error ErrInvalid = ''invalid argument''"
| "err_Error ErrClosed = ''file already closed''"
| "err_Error (errorString s) = s"

definition newline :: string where
  "newline = [CHR 0x0A]"

text \<open>
  A Go call either returns or panics. \<open>Panic\<close> carries the runtime's message.
\<close>

datatype 'a res = Return 'a | Panic string

subsection \<open>Package support\_domain\<close>

text \<open>
  Modelled from the spec: package \<open>support_domain\<close> (type \<open>LogLevel\<close>, its constants and
  the struct \<open>LogEntry\<close>) is imported by logger.go and is not part of the sources. The spec
  gives the level as an enumeration of TRACE, DEBUG, INFO, WARN, ERROR whose string form is
  the level's name, and the entry as level, message, labels and origin service.
  \<open>string_of_LogLevel\<close> is the conversion \<open>string(logLevel)\<close>.
\<close>

datatype LogLevel = TRACE | DEBUG | INFO | WARN | ERROR

fun string_of_LogLevel :: "LogLevel \<Rightarrow> string" where
  "string_of_LogLevel TRACE = ''TRACE''"
| "string_of_LogLevel DEBUG = ''DEBUG''"
| "string_of_LogLevel INFO = ''INFO''"
| "string_of_LogLevel WARN = ''WARN''"
| "string_of_LogLevel ERROR = ''ERROR''"

record LogEntry =
  Level :: LogLevel
  Message :: string
  Labels :: "string list"
  OriginService :: string

text \<open>\<open>support_domain.LogEntry{}\<close>: the zero value (the first constant stands for it).\<close>

definition LogEntry_zero :: LogEntry where
  "LogEntry_zero = \<lparr>Level = TRACE, Message = [], Labels = [], OriginService = []\<rparr>"

subsection \<open>The client struct\<close>

text \<open>
  \<open>*log.Logger\<close> is a pointer: an index into the heap of logger objects of the world. An
  index outside the heap stands for a nil pointer; using it panics.
\<close>

type_synonym ptr = nat

record LoggingClient =
  OwningServiceName :: string
  RemoteEnabled :: bool
  LogTarget :: string
  StdOutLogger :: ptr
  FileLogger :: ptr

section \<open>The world: standard output, file system, logger objects, network\<close>

datatype LogFlag = Ldate | Ltime | Lmicroseconds | Llongfile | Lshortfile

datatype OpenFlag = O_RDONLY | O_WRONLY | O_RDWR | O_APPEND | O_CREATE | O_EXCL | O_TRUNC

text \<open>An \<open>io.Writer\<close> held by a logger: \<open>os.Stdout\<close> or an \<open>*os.File\<close> (its descriptor,
  \<open>None\<close> for a nil \<open>*os.File\<close>).\<close>

datatype Writer = Stdout | FileWriter "nat option"

text \<open>\<open>log.Logger\<close>: prefix, flags (a bit set in Go) and output; \<open>None\<close> is a nil writer.\<close>

record Logger =
  Logger_prefix :: string
  Logger_flag :: "LogFlag set"
  Logger_out :: "Writer option"

text \<open>A regular file: the permission bits asked for when it was created (the umask of the
  process is not modelled) and its bytes. Directories carry their permission bits only.\<close>

record FileNode =
  mode :: nat
  content :: string

text \<open>An open \<open>*os.File\<close>: path, whether it was opened for writing and in append mode,
  and the offset of the next write when it was not.\<close>

record OpenFile =
  fpath :: string
  fwritable :: bool
  fappend :: bool
  foffset :: nat

record Request =
  Method :: string
  URL :: string
  Header :: "(string \<times> string) list"
  Body :: string

datatype http_Client = http_Client

text \<open>A goroutine started by \<open>go lc.makeRequest(client, req)\<close> and not yet run.\<close>

datatype goroutine = Go_makeRequest LoggingClient http_Client Request

record World =
  stdout :: string
  dirs :: "string \<rightharpoonup> nat"
  files :: "string \<rightharpoonup> FileNode"
  fds :: "nat \<rightharpoonup> OpenFile"
  next_fd :: nat
  loggers :: "Logger list"
  spawned :: "goroutine list"
  wire :: "Request list"

text \<open>
  What the program cannot decide: the clock (one reading for a call), failures of the
  operating system (permissions, read-only media, ...) for \<open>Stat\<close>, \<open>MkdirAll\<close> and
  \<open>OpenFile\<close> on a path, the result of \<open>json.Marshal\<close> on an entry, whether
  \<open>http.NewRequest\<close> can parse a URL, and whether the transport delivers a request. The
  general theorems hold for every environment.
\<close>

record Env =
  date :: string
  time :: string
  stat_fault :: "string \<Rightarrow> error option"
  mkdir_fault :: "string \<Rightarrow> error option"
  open_fault :: "string \<Rightarrow> error option"
  json_Marshal :: "LogEntry \<Rightarrow> string \<times> error option"
  url_fault :: "string \<Rightarrow> error option"
  transport :: "Request \<Rightarrow> error option"

type_synonym 'a prog = "World \<Rightarrow> 'a res \<times> World"

text \<open>Sequencing of statements: a panic ends the function.\<close>

definition andThen :: "'a prog \<Rightarrow> ('a \<Rightarrow> 'b prog) \<Rightarrow> 'b prog" where
  "andThen m f = (\<lambda>w. case m w of (Panic s, w') \<Rightarrow> (Panic s, w') | (Return x, w') \<Rightarrow> f x w')"

definition return :: "'a \<Rightarrow> 'a prog" where
  "return x = (\<lambda>w. (Return x, w))"

text \<open>\<open>defer d\<close> before a body: \<open>d\<close> runs when the body leaves, also by panic; what
  \<open>d\<close> returns is dropped, and a panic of \<open>d\<close> becomes the function's.\<close>

definition deferred :: "'b prog \<Rightarrow> 'a prog \<Rightarrow> 'a prog" where
  "deferred d body = (\<lambda>w. case body w of (r, w') \<Rightarrow>
     (case d w' of (Panic s, w'') \<Rightarrow> (Panic s, w'') | (Return _, w'') \<Rightarrow> (r, w'')))"

section \<open>The standard library, as far as logger.go calls it\<close>

subsection \<open>path/filepath and strings\<close>

text \<open>\<open>filepath.Split\<close>: splits immediately after the final separator.\<close>

definition filepath_Split :: "string \<Rightarrow> string \<times> string" where
  "filepath_Split path =
     (rev (dropWhile (\<lambda>c. c \<noteq> CHR ''/'') (rev path)),
      rev (takeWhile (\<lambda>c. c \<noteq> CHR ''/'') (rev path)))"

text \<open>\<open>strings.TrimRight s cutset\<close>: drops every trailing byte that is in the cutset.\<close>

definition strings_TrimRight :: "string \<Rightarrow> string \<Rightarrow> string" where
  "strings_TrimRight s cutset = rev (dropWhile (\<lambda>c. c \<in> set cutset) (rev s))"

subsection \<open>fmt and os\<close>

definition write_stdout :: "string \<Rightarrow> World \<Rightarrow> World" where
  "write_stdout s w = w\<lparr>stdout := stdout w @ s\<rparr>"

definition fmt_Println :: "string \<Rightarrow> unit prog" where
  "fmt_Println s = (\<lambda>w. (Return (), write_stdout (s @ newline) w))"

text \<open>\<open>os.Stat\<close>; the program drops the file info and keeps the error.\<close>

definition os_Stat :: "Env \<Rightarrow> string \<Rightarrow> World \<Rightarrow> error option" where
  "os_Stat env name w =
     (case stat_fault env name of
        Some e \<Rightarrow> Some e
      | None \<Rightarrow> if dirs w name \<noteq> None \<or> files w name \<noteq> None then None
                else Some (PathError ''stat'' name ENOENT))"

fun os_IsNotExist :: "error option \<Rightarrow> bool" where
  "os_IsNotExist (Some (PathError _ _ ENOENT)) = True"
| "os_IsNotExist _ = False"

text \<open>The directories \<open>os.MkdirAll\<close> visits: the path and each of its ancestors, that is
  every prefix that ends before a separator (or at the end) and not in one.\<close>

definition dir_chain :: "string \<Rightarrow> string list" where
  "dir_chain path =
     [take (Suc i) path. i \<leftarrow> [0..<length path],
        path ! i \<noteq> CHR ''/'' \<and> (Suc i = length path \<or> path ! Suc i = CHR ''/'')]"

text \<open>\<open>os.MkdirAll path perm\<close>: creates the path and the missing ancestors with the
  permission bits asked for, and fails where a regular file is in the way.\<close>

definition os_MkdirAll :: "Env \<Rightarrow> string \<Rightarrow> nat \<Rightarrow> World \<Rightarrow> error option \<times> World" where
  "os_MkdirAll env path perm w =
     (case mkdir_fault env path of
        Some e \<Rightarrow> (Some e, w)
      | None \<Rightarrow>
          if list_ex (\<lambda>d. files w d \<noteq> None) (dir_chain path)
          then (Some (PathError ''mkdir'' path ENOTDIR), w)
          else (None, w\<lparr>dirs := (\<lambda>d. if d \<in> set (dir_chain path) \<and> dirs w d = None
                                      then Some perm else dirs w d)\<rparr>))"

text \<open>The directory a new file is entered in; the empty path stands for the root or the
  working directory, which exist.\<close>

definition parent_exists :: "string \<Rightarrow> World \<Rightarrow> bool" where
  "parent_exists name w =
     (let dir = strings_TrimRight (fst (filepath_Split name)) ''/''
      in dir = [] \<or> dirs w dir \<noteq> None)"

definition new_fd :: "string \<Rightarrow> OpenFlag set \<Rightarrow> World \<Rightarrow> World" where
  "new_fd name flags w =
     w\<lparr>fds := (fds w)(next_fd w \<mapsto>
          \<lparr>fpath = name, fwritable = (O_WRONLY \<in> flags \<or> O_RDWR \<in> flags),
           fappend = (O_APPEND \<in> flags), foffset = 0\<rparr>),
       next_fd := Suc (next_fd w)\<rparr>"

text \<open>\<open>os.OpenFile name flag perm\<close> returns the pair (file, err); file is nil on an error.\<close>

definition os_OpenFile ::
  "Env \<Rightarrow> string \<Rightarrow> OpenFlag set \<Rightarrow> nat \<Rightarrow> World \<Rightarrow> (nat option \<times> error option) \<times> World" where
  "os_OpenFile env name flags perm w =
     (case open_fault env name of
        Some e \<Rightarrow> ((None, Some e), w)
      | None \<Rightarrow>
          if dirs w name \<noteq> None then ((None, Some (PathError ''open'' name EISDIR)), w)
          else (case files w name of
             Some node \<Rightarrow>
               if O_CREATE \<in> flags \<and> O_EXCL \<in> flags
               then ((None, Some (PathError ''open'' name EEXIST)), w)
               else
               ((Some (next_fd w), None),
                new_fd name flags
                  (if O_TRUNC \<in> flags then w\<lparr>files := (files w)(name \<mapsto> node\<lparr>content := []\<rparr>)\<rparr>
                   else w))
           | None \<Rightarrow>
               if O_CREATE \<in> flags \<and> parent_exists name w
               then ((Some (next_fd w), None),
                     new_fd name flags
                       (w\<lparr>files := (files w)(name \<mapsto> \<lparr>mode = perm, content = []\<rparr>)\<rparr>))
               else ((None, Some (PathError ''open'' name ENOENT)), w)))"

text \<open>\<open>(*os.File).Write\<close>: at the end in append mode, else at the file's offset; on a nil
  receiver it returns \<open>ErrInvalid\<close>.\<close>

definition File_Write :: "nat option \<Rightarrow> string \<Rightarrow> World \<Rightarrow> error option \<times> World" where
  "File_Write file s w =
     (case file of
        None \<Rightarrow> (Some ErrInvalid, w)
      | Some fd \<Rightarrow>
         (case fds w fd of
            None \<Rightarrow> (Some ErrClosed, w)
          | Some f \<Rightarrow>
              if \<not> fwritable f then (Some (PathError ''write'' (fpath f) EBADF), w)
              else (case files w (fpath f) of
                 None \<Rightarrow> (None, w)
               | Some node \<Rightarrow>
                   if fappend f
                   then (None, w\<lparr>files := (files w)(fpath f \<mapsto>
                                   node\<lparr>content := content node @ s\<rparr>)\<rparr>)
                   else (None, w\<lparr>files := (files w)(fpath f \<mapsto>
                                   node\<lparr>content := take (foffset f) (content node) @ s
                                           @ drop (foffset f + length s) (content node)\<rparr>),
                                 fds := (fds w)(fd \<mapsto> f\<lparr>foffset := foffset f + length s\<rparr>)\<rparr>))))"

text \<open>\<open>(*os.File).Close\<close>: on a nil receiver it returns \<open>ErrInvalid\<close> and does not
  panic; on a closed file it returns \<open>ErrClosed\<close>.\<close>

definition File_Close :: "nat option \<Rightarrow> (error option) prog" where
  "File_Close file = (\<lambda>w.
     case file of
       None \<Rightarrow> (Return (Some ErrInvalid), w)
     | Some fd \<Rightarrow>
         (case fds w fd of
            None \<Rightarrow> (Return (Some ErrClosed), w)
          | Some _ \<Rightarrow> (Return None, w\<lparr>fds := (fds w)(fd := None)\<rparr>)))"

subsection \<open>log\<close>

text \<open>The header \<open>log\<close> puts between the prefix and the message: date, time and the
  caller's \<open>file:line\<close>, each if its flag is set.\<close>

definition log_header :: "Env \<Rightarrow> LogFlag set \<Rightarrow> string \<Rightarrow> string" where
  "log_header env fl loc =
     (if Ldate \<in> fl then date env @ '' '' else [])
     @ (if Ltime \<in> fl \<or> Lmicroseconds \<in> fl then time env @ '' '' else [])
     @ (if Lshortfile \<in> fl \<or> Llongfile \<in> fl then loc @ '': '' else [])"

text \<open>The logger writes one line with one \<open>Write\<close> and drops the error of the write.\<close>

fun Writer_Write :: "Writer \<Rightarrow> string \<Rightarrow> World \<Rightarrow> World" where
  "Writer_Write Stdout s w = write_stdout s w"
| "Writer_Write (FileWriter file) s w = snd (File_Write file s w)"

definition alloc_Logger :: "Logger \<Rightarrow> World \<Rightarrow> ptr \<times> World" where
  "alloc_Logger l w = (length (loggers w), w\<lparr>loggers := loggers w @ [l]\<rparr>)"

definition log_New :: "Writer \<Rightarrow> string \<Rightarrow> LogFlag set \<Rightarrow> World \<Rightarrow> ptr \<times> World" where
  "log_New wr pfx fl w =
     alloc_Logger \<lparr>Logger_prefix = pfx, Logger_flag = fl, Logger_out = Some wr\<rparr> w"

definition Logger_update :: "ptr \<Rightarrow> (Logger \<Rightarrow> Logger) \<Rightarrow> unit prog" where
  "Logger_update p f = (\<lambda>w.
     if p < length (loggers w)
     then (Return (), w\<lparr>loggers := (loggers w)[p := f (loggers w ! p)]\<rparr>)
     else (Panic ''invalid memory address or nil pointer dereference'', w))"

definition Logger_SetFlags :: "ptr \<Rightarrow> LogFlag set \<Rightarrow> unit prog" where
  "Logger_SetFlags p fl = Logger_update p (\<lambda>l. l\<lparr>Logger_flag := fl\<rparr>)"

definition Logger_SetPrefix :: "ptr \<Rightarrow> string \<Rightarrow> unit prog" where
  "Logger_SetPrefix p pfx = Logger_update p (\<lambda>l. l\<lparr>Logger_prefix := pfx\<rparr>)"

definition Logger_SetOutput :: "ptr \<Rightarrow> Writer option \<Rightarrow> unit prog" where
  "Logger_SetOutput p wr = Logger_update p (\<lambda>l. l\<lparr>Logger_out := wr\<rparr>)"

text \<open>\<open>l.Println(msg)\<close> called at source position \<open>loc\<close>: prefix, header, message,
  newline. A nil logger or a nil writer panics.\<close>

definition Logger_Println :: "Env \<Rightarrow> ptr \<Rightarrow> string \<Rightarrow> string \<Rightarrow> unit prog" where
  "Logger_Println env p loc msg = (\<lambda>w.
     if p < length (loggers w)
     then (case Logger_out (loggers w ! p) of
             None \<Rightarrow> (Panic ''invalid memory address or nil pointer dereference'', w)
           | Some wr \<Rightarrow>
               (Return (),
                Writer_Write wr
                  (Logger_prefix (loggers w ! p)
                   @ log_header env (Logger_flag (loggers w ! p)) loc @ msg @ newline) w))
     else (Panic ''invalid memory address or nil pointer dereference'', w))"

subsection \<open>net/http and goroutines\<close>

text \<open>\<open>http.NewRequest\<close> returns the pair (req, err); it fails when the URL does not parse.\<close>

definition http_NewRequest ::
  "Env \<Rightarrow> string \<Rightarrow> string \<Rightarrow> string \<Rightarrow> Request option \<times> error option" where
  "http_NewRequest env method url body =
     (case url_fault env url of
        Some e \<Rightarrow> (None, Some e)
      | None \<Rightarrow> (Some \<lparr>Method = method, URL = url, Header = [], Body = body\<rparr>, None))"

definition Header_Add :: "string \<Rightarrow> string \<Rightarrow> Request \<Rightarrow> Request" where
  "Header_Add k v req = req\<lparr>Header := Header req @ [(k, v)]\<rparr>"


text \<open>The statement \<open>go f(...)\<close>: the call is queued and the caller goes on.\<close>

definition go :: "goroutine \<Rightarrow> unit prog" where
  "go g = (\<lambda>w. (Return (), w\<lparr>spawned := spawned w @ [g]\<rparr>))"

definition oct3 :: "nat \<Rightarrow> nat \<Rightarrow> nat \<Rightarrow> nat" where
  "oct3 a b c = a * 64 + b * 8 + c"

section \<open>logger.go\<close>

definition NewClient :: "string \<Rightarrow> bool \<Rightarrow> string \<Rightarrow> LoggingClient prog" where
  "NewClient owningServiceName isRemote logTarget = (\<lambda>w.
     let (p1, w1) = log_New Stdout [] {Ldate, Ltime, Lshortfile} w;
         (p2, w2) = alloc_Logger \<lparr>Logger_prefix = [], Logger_flag = {}, Logger_out = None\<rparr> w1
     in andThen (Logger_SetFlags p2 {Ldate, Ltime, Lshortfile})
          (\<lambda>_. return \<lparr>OwningServiceName = owningServiceName, RemoteEnabled = isRemote,
                        LogTarget = logTarget, StdOutLogger = p1, FileLogger = p2\<rparr>) w2)"

definition verifyLogDirectory :: "Env \<Rightarrow> string \<Rightarrow> unit prog" where
  "verifyLogDirectory env path = (\<lambda>w.
     let (prefix, _) = filepath_Split path;
         dir = strings_TrimRight prefix ''/''
     in if length dir > 0
        then (if os_IsNotExist (os_Stat env dir w)
              then andThen (fmt_Println (''Creating directory: '' @ dir))
                     (\<lambda>_ w'. (Return (), snd (os_MkdirAll env dir (oct3 7 6 6) w'))) w
              else (Return (), w))
        else (Return (), w))"

definition saveToLogFile :: "Env \<Rightarrow> LoggingClient \<Rightarrow> string \<Rightarrow> string \<Rightarrow> (error option) prog" where
  "saveToLogFile env lc prefix message = (\<lambda>w.
     if LogTarget lc = [] then (Return None, w)
     else andThen (verifyLogDirectory env (LogTarget lc))
       (\<lambda>_ w1.
          let ((file, err), w2) =
                os_OpenFile env (LogTarget lc) {O_APPEND, O_CREATE, O_WRONLY} (oct3 6 4 4) w1
          in deferred (File_Close file)
               (case err of
                  Some e \<Rightarrow>
                    andThen (fmt_Println (''Error opening log file: '' @ err_Error e))
                      (\<lambda>_. return err)
                | None \<Rightarrow>
                    andThen (Logger_SetOutput (FileLogger lc) (Some (FileWriter file)))
                      (\<lambda>_. andThen (Logger_SetPrefix (FileLogger lc) (prefix @ '': ''))
                      (\<lambda>_. andThen (Logger_Println env (FileLogger lc) ''logger.go:87'' message)
                      (\<lambda>_. return None)))) w2) w)"

definition buildLogEntry :: "LoggingClient \<Rightarrow> LogLevel \<Rightarrow> string \<Rightarrow> string list \<Rightarrow> LogEntry" where
  "buildLogEntry lc logLevel msg labels =
     (let res = LogEntry_zero;
          res = res\<lparr>Level := logLevel\<rparr>;
          res = res\<lparr>Message := msg\<rparr>;
          res = res\<lparr>Labels := labels\<rparr>;
          res = res\<lparr>OriginService := OwningServiceName lc\<rparr>
      in res)"


definition sendLog :: "Env \<Rightarrow> LoggingClient \<Rightarrow> LogEntry \<Rightarrow> (error option) prog" where
  "sendLog env lc logEntry = (\<lambda>w.
     if LogTarget lc = [] then (Return None, w)
     else
       let (reqBody, err) = json_Marshal env logEntry
       in (case err of
             Some e \<Rightarrow> andThen (fmt_Println (err_Error e)) (\<lambda>_. return err) w
           | None \<Rightarrow>
              (let (req, err) = http_NewRequest env ''POST'' (LogTarget lc) reqBody
               in (case err of
                     Some e \<Rightarrow> andThen (fmt_Println (err_Error e)) (\<lambda>_. return err) w
                   | None \<Rightarrow>
                      (case req of
                         None \<Rightarrow> (Panic ''invalid memory address or nil pointer dereference'', w)
                       | Some r \<Rightarrow>
                           let r = Header_Add ''Content-Type'' ''application/json'' r;
                               client = http_Client
                           in andThen (go (Go_makeRequest lc client r)) (\<lambda>_. return None) w)))))"

definition log :: "Env \<Rightarrow> LoggingClient \<Rightarrow> LogLevel \<Rightarrow> string \<Rightarrow> string list \<Rightarrow> (error option) prog" where
  "log env lc logLevel msg labels =
     (if \<not> RemoteEnabled lc
      then saveToLogFile env lc (string_of_LogLevel logLevel) msg
      else (let logEntry = buildLogEntry lc logLevel msg labels
            in sendLog env lc logEntry))"

definition Info :: "Env \<Rightarrow> LoggingClient \<Rightarrow> string \<Rightarrow> string list \<Rightarrow> (error option) prog" where
  "Info env lc msg labels =
     andThen (Logger_SetPrefix (StdOutLogger lc) ''INFO: '')
       (\<lambda>_. andThen (Logger_Println env (StdOutLogger lc) ''logger.go:107'' msg)
       (\<lambda>_. log env lc INFO msg labels))"

definition Trace :: "LoggingClient \<Rightarrow> string \<Rightarrow> string list \<Rightarrow> unit prog" where
  "Trace lc msg labels = return ()"

definition Debug :: "Env \<Rightarrow> LoggingClient \<Rightarrow> string \<Rightarrow> string list \<Rightarrow> (error option) prog" where
  "Debug env lc msg labels =
     andThen (Logger_SetPrefix (StdOutLogger lc) ''DEBUG: '')
       (\<lambda>_. andThen (Logger_Println env (StdOutLogger lc) ''logger.go:119'' msg)
       (\<lambda>_. log env lc DEBUG msg labels))"

definition Warn :: "Env \<Rightarrow> LoggingClient \<Rightarrow> string \<Rightarrow> string list \<Rightarrow> (error option) prog" where
  "Warn env lc msg labels =
     andThen (Logger_SetPrefix (StdOutLogger lc) ''WARN: '')
       (\<lambda>_. andThen (Logger_Println env (StdOutLogger lc) ''logger.go:126'' msg)
       (\<lambda>_. log env lc WARN msg labels))"

definition Error :: "Env \<Rightarrow> LoggingClient \<Rightarrow> string \<Rightarrow> string list \<Rightarrow> (error option) prog" where
  "Error env lc msg labels =
     andThen (Logger_SetPrefix (StdOutLogger lc) ''ERROR: '')
       (\<lambda>_. andThen (Logger_Println env (StdOutLogger lc) ''logger.go:133'' msg)
       (\<lambda>_. log env lc ERROR msg labels))"


section \<open>Notions used by the theorems\<close>

text \<open>
  A client as \<open>NewClient\<close> makes it and as every operation keeps it: two distinct logger
  objects of the heap, the first writing to standard output.
\<close>

definition valid_client :: "LoggingClient \<Rightarrow> World \<Rightarrow> bool" where
  "valid_client lc w \<longleftrightarrow>
     StdOutLogger lc < length (loggers w) \<and> FileLogger lc < length (loggers w)
     \<and> StdOutLogger lc \<noteq> FileLogger lc
     \<and> Logger_out (loggers w ! StdOutLogger lc) = Some Stdout"

text \<open>The four logging methods, each with its level and with the source position of its
  \<open>Println\<close>, which the logger prints as the caller's \<open>file:line\<close>.\<close>

definition methods ::
  "(LogLevel \<times> string \<times> (Env \<Rightarrow> LoggingClient \<Rightarrow> string \<Rightarrow> string list \<Rightarrow> (error option) prog)) list" where
  "methods = [(INFO, ''logger.go:107'', Info), (DEBUG, ''logger.go:119'', Debug),
              (WARN, ''logger.go:126'', Warn), (ERROR, ''logger.go:133'', Error)]"

text \<open>What the first two statements of each method do: the prefix of the standard-output
  logger is set and the line is printed.\<close>

definition std_echo :: "Env \<Rightarrow> LoggingClient \<Rightarrow> string \<Rightarrow> string \<Rightarrow> string \<Rightarrow> World \<Rightarrow> World" where
  "std_echo env lc pfx loc msg w =
     w\<lparr>loggers := (loggers w)[StdOutLogger lc := (loggers w ! StdOutLogger lc)\<lparr>Logger_prefix := pfx\<rparr>],
       stdout := stdout w @ pfx @ log_header env (Logger_flag (loggers w ! StdOutLogger lc)) loc
                   @ msg @ newline\<rparr>"

text \<open>The directory \<open>verifyLogDirectory\<close> computes from a path, and its test.\<close>

definition log_dir :: "string \<Rightarrow> string" where
  "log_dir path = strings_TrimRight (fst (filepath_Split path)) ''/''"

definition creating :: "Env \<Rightarrow> string \<Rightarrow> World \<Rightarrow> bool" where
  "creating env path w \<longleftrightarrow> log_dir path \<noteq> [] \<and> os_IsNotExist (os_Stat env (log_dir path) w)"

text \<open>The file \<open>os.OpenFile\<close> finds or creates for the sink, and the line the file
  logger writes.\<close>

definition opened_node :: "World \<Rightarrow> string \<Rightarrow> FileNode" where
  "opened_node w name =
     (case files w name of None \<Rightarrow> \<lparr>mode = oct3 6 4 4, content = []\<rparr> | Some n \<Rightarrow> n)"

definition file_line :: "Env \<Rightarrow> LoggingClient \<Rightarrow> string \<Rightarrow> string \<Rightarrow> World \<Rightarrow> string" where
  "file_line env lc pfx msg w =
     pfx @ '': '' @ log_header env (Logger_flag (loggers w ! FileLogger lc)) ''logger.go:87''
     @ msg @ newline"

subsection \<open>Concrete worlds\<close>

definition env_ok :: Env where
  "env_ok = \<lparr>date = ''2017/11/01'', time = ''10:00:00'',
     stat_fault = (\<lambda>_. None), mkdir_fault = (\<lambda>_. None), open_fault = (\<lambda>_. None),
     json_Marshal = (\<lambda>e. (string_of_LogLevel (Level e) @ '' '' @ Message e, None)),
     url_fault = (\<lambda>_. None), transport = (\<lambda>_. None)\<rparr>"

definition std_flags :: "LogFlag set" where
  "std_flags = {Ldate, Ltime, Lshortfile}"

definition world_new :: World where
  "world_new = \<lparr>stdout = [], dirs = Map.empty, files = Map.empty, fds = Map.empty, next_fd = 3,
     loggers = [\<lparr>Logger_prefix = [], Logger_flag = std_flags, Logger_out = Some Stdout\<rparr>,
                \<lparr>Logger_prefix = [], Logger_flag = std_flags, Logger_out = None\<rparr>],
     spawned = [], wire = []\<rparr>"

definition client_local :: LoggingClient where
  "client_local = \<lparr>OwningServiceName = ''svc'', RemoteEnabled = False,
     LogTarget = ''/tmp/a/b/app.log'', StdOutLogger = 0, FileLogger = 1\<rparr>"

definition client_remote :: LoggingClient where
  "client_remote = \<lparr>OwningServiceName = ''svc'', RemoteEnabled = True,
     LogTarget = ''http://collector/logs'', StdOutLogger = 0, FileLogger = 1\<rparr>"

definition client_off :: LoggingClient where
  "client_off = \<lparr>OwningServiceName = ''svc'', RemoteEnabled = False,
     LogTarget = [], StdOutLogger = 0, FileLogger = 1\<rparr>"

text \<open>Environments with one fault each: \<open>MkdirAll\<close> denied, \<open>OpenFile\<close> failing, the
  transport down.\<close>

definition env_denied :: Env where
  "env_denied = env_ok\<lparr>mkdir_fault := (\<lambda>p. Some (PathError ''mkdir'' p EACCES))\<rparr>"

definition env_enoent :: Env where
  "env_enoent = env_ok\<lparr>open_fault := (\<lambda>p. Some (PathError ''open'' p ENOENT))\<rparr>"



section \<open>Lemmas on the library model and on the sinks\<close>

lemma echo_step:
  assumes "valid_client lc w"
  shows "andThen (Logger_SetPrefix (StdOutLogger lc) pfx)
           (\<lambda>_. andThen (Logger_Println env (StdOutLogger lc) loc msg) k) w
         = k () (std_echo env lc pfx loc msg w)"
  using assms
  by (simp add: valid_client_def andThen_def Logger_SetPrefix_def Logger_update_def
      Logger_Println_def std_echo_def write_stdout_def)

lemma method_unfold:
  assumes "(lvl, loc, m) \<in> set methods" and "valid_client lc w"
  shows "m env lc msg labels w
         = log env lc lvl msg labels (std_echo env lc (string_of_LogLevel lvl @ '': '') loc msg w)"
  using assms(1) echo_step[OF assms(2)]
  by (auto simp: methods_def Info_def Debug_def Warn_def Error_def)


lemma verifyLogDirectory_eq:
  "verifyLogDirectory env path w =
     (Return (),
      if creating env path w
      then snd (os_MkdirAll env (log_dir path) (oct3 7 6 6)
                  (write_stdout (''Creating directory: '' @ log_dir path @ newline) w))
      else w)"
  by (simp add: verifyLogDirectory_def creating_def log_dir_def andThen_def fmt_Println_def Let_def
      split: prod.splits)

lemma os_MkdirAll_frame:
  "stdout (snd (os_MkdirAll env p perm w)) = stdout w"
  "files (snd (os_MkdirAll env p perm w)) = files w"
  "fds (snd (os_MkdirAll env p perm w)) = fds w"
  "next_fd (snd (os_MkdirAll env p perm w)) = next_fd w"
  "loggers (snd (os_MkdirAll env p perm w)) = loggers w"
  "spawned (snd (os_MkdirAll env p perm w)) = spawned w"
  "wire (snd (os_MkdirAll env p perm w)) = wire w"
  by (simp_all add: os_MkdirAll_def split: option.splits)

lemma verifyLogDirectory_frame:
  "fst (verifyLogDirectory env path w) = Return ()"
  "stdout (snd (verifyLogDirectory env path w)) =
     stdout w @ (if creating env path w then ''Creating directory: '' @ log_dir path @ newline else [])"
  "files (snd (verifyLogDirectory env path w)) = files w"
  "fds (snd (verifyLogDirectory env path w)) = fds w"
  "next_fd (snd (verifyLogDirectory env path w)) = next_fd w"
  "loggers (snd (verifyLogDirectory env path w)) = loggers w"
  "spawned (snd (verifyLogDirectory env path w)) = spawned w"
  "wire (snd (verifyLogDirectory env path w)) = wire w"
  by (simp_all add: verifyLogDirectory_eq os_MkdirAll_frame write_stdout_def)

lemma os_OpenFile_error:
  assumes "os_OpenFile env name flags perm w = ((file, Some e), w')"
  shows "file = None \<and> w' = w"
  using assms by (auto simp: os_OpenFile_def new_fd_def split: option.splits if_splits)

lemma os_OpenFile_ok:
  assumes "os_OpenFile env name {O_APPEND, O_CREATE, O_WRONLY} perm w = ((file, None), w')"
  shows "file = Some (next_fd w) \<and>
         w' = w\<lparr>files := (files w)(name \<mapsto>
                   (case files w name of None \<Rightarrow> \<lparr>mode = perm, content = []\<rparr> | Some n \<Rightarrow> n)),
                fds := (fds w)(next_fd w \<mapsto>
                   \<lparr>fpath = name, fwritable = True, fappend = True, foffset = 0\<rparr>),
                next_fd := Suc (next_fd w)\<rparr>"
  using assms
  by (auto simp: os_OpenFile_def new_fd_def map_upd_triv split: option.splits if_splits)

lemma saveToLogFile_empty:
  "LogTarget lc = [] \<Longrightarrow> saveToLogFile env lc pfx msg w = (Return None, w)"
  by (simp add: saveToLogFile_def)

lemma verifyLogDirectory_obtain:
  obtains w1 where "verifyLogDirectory env path w = (Return (), w1)"
    and "snd (verifyLogDirectory env path w) = w1"
  using verifyLogDirectory_eq[of env path w] by simp

lemma saveToLogFile_fail:
  assumes "LogTarget lc \<noteq> []"
    and "os_OpenFile env (LogTarget lc) {O_APPEND, O_CREATE, O_WRONLY} (oct3 6 4 4)
           (snd (verifyLogDirectory env (LogTarget lc) w)) = ((file, Some e), w2)"
  shows "saveToLogFile env lc pfx msg w =
           (Return (Some e),
            write_stdout (''Error opening log file: '' @ err_Error e @ newline)
              (snd (verifyLogDirectory env (LogTarget lc) w)))"
proof -
  obtain w1 where v: "verifyLogDirectory env (LogTarget lc) w = (Return (), w1)"
    and s: "snd (verifyLogDirectory env (LogTarget lc) w) = w1"
    by (rule verifyLogDirectory_obtain)
  have op: "os_OpenFile env (LogTarget lc) {O_APPEND, O_CREATE, O_WRONLY} (oct3 6 4 4) w1
            = ((None, Some e), w1)"
    using assms(2) os_OpenFile_error[OF assms(2)] by (simp add: s)
  show ?thesis
    unfolding s using assms(1)
    by (simp add: saveToLogFile_def andThen_def v op deferred_def File_Close_def
        fmt_Println_def return_def)
qed

lemma saveToLogFile_ok:
  assumes "LogTarget lc \<noteq> []" and "FileLogger lc < length (loggers w)"
    and "os_OpenFile env (LogTarget lc) {O_APPEND, O_CREATE, O_WRONLY} (oct3 6 4 4)
           (snd (verifyLogDirectory env (LogTarget lc) w)) = ((file, None), w2)"
  shows "saveToLogFile env lc pfx msg w =
           (Return None,
            (snd (verifyLogDirectory env (LogTarget lc) w))
              \<lparr>files := (files w)(LogTarget lc \<mapsto>
                  (opened_node w (LogTarget lc))
                    \<lparr>content := content (opened_node w (LogTarget lc)) @ file_line env lc pfx msg w\<rparr>),
               fds := (fds w)(next_fd w := None),
               next_fd := Suc (next_fd w),
               loggers := (loggers w)[FileLogger lc :=
                  (loggers w ! FileLogger lc)
                    \<lparr>Logger_out := Some (FileWriter (Some (next_fd w))),
                     Logger_prefix := pfx @ '': ''\<rparr>]\<rparr>)"
proof -
  obtain w1 where v: "verifyLogDirectory env (LogTarget lc) w = (Return (), w1)"
    and s: "snd (verifyLogDirectory env (LogTarget lc) w) = w1"
    by (rule verifyLogDirectory_obtain)
  have fr: "files w1 = files w" "fds w1 = fds w" "next_fd w1 = next_fd w" "loggers w1 = loggers w"
    using verifyLogDirectory_frame[of env "LogTarget lc" w] by (simp_all add: s)
  have op: "os_OpenFile env (LogTarget lc) {O_APPEND, O_CREATE, O_WRONLY} (oct3 6 4 4) w1
            = ((Some (next_fd w), None),
               w1\<lparr>files := (files w)(LogTarget lc \<mapsto> opened_node w (LogTarget lc)),
                  fds := (fds w)(next_fd w \<mapsto>
                     \<lparr>fpath = LogTarget lc, fwritable = True, fappend = True, foffset = 0\<rparr>),
                  next_fd := Suc (next_fd w)\<rparr>)"
    using assms(3) os_OpenFile_ok[OF assms(3)] by (simp add: s fr opened_node_def)
  show ?thesis
    unfolding s using assms(1,2)
    by (simp add: saveToLogFile_def andThen_def v op fr deferred_def
        File_Close_def return_def Logger_SetOutput_def Logger_SetPrefix_def
        Logger_update_def Logger_Println_def File_Write_def file_line_def)
qed

lemma sendLog_empty:
  "LogTarget lc = [] \<Longrightarrow> sendLog env lc e w = (Return None, w)"
  by (simp add: sendLog_def)

lemma log_empty:
  "LogTarget lc = [] \<Longrightarrow> log env lc lvl msg labels w = (Return None, w)"
  by (simp add: log_def saveToLogFile_empty sendLog_empty)

lemma log_eq:
  "log env lc lvl msg labels =
     (if \<not> RemoteEnabled lc then saveToLogFile env lc (string_of_LogLevel lvl) msg
      else sendLog env lc \<lparr>Level = lvl, Message = msg, Labels = labels,
                            OriginService = OwningServiceName lc\<rparr>)"
  by (simp add: log_def buildLogEntry_def LogEntry_zero_def)

lemma sendLog_cases:
  assumes "LogTarget lc \<noteq> []"
  shows "sendLog env lc e w =
     (case snd (json_Marshal env e) of
        Some err \<Rightarrow> (Return (Some err), write_stdout (err_Error err @ newline) w)
      | None \<Rightarrow>
         (case url_fault env (LogTarget lc) of
            Some err \<Rightarrow> (Return (Some err), write_stdout (err_Error err @ newline) w)
          | None \<Rightarrow>
             (Return None,
              w\<lparr>spawned := spawned w @
                   [Go_makeRequest lc http_Client
                      \<lparr>Method = ''POST'', URL = LogTarget lc,
                       Header = [(''Content-Type'', ''application/json'')],
                       Body = fst (json_Marshal env e)\<rparr>]\<rparr>)))"
  using assms
  by (simp add: sendLog_def http_NewRequest_def Header_Add_def go_def andThen_def return_def
      fmt_Println_def split: prod.splits option.splits)

lemma sendLog_stdout_mono:
  "\<exists>rest. stdout (snd (sendLog env lc e w)) = stdout w @ rest"
proof (cases "LogTarget lc = []")
  case True
  then show ?thesis by (simp add: sendLog_empty)
next
  case False
  then show ?thesis
    by (simp add: sendLog_cases write_stdout_def split: option.splits)
qed

lemma saveToLogFile_stdout:
  assumes "LogTarget lc \<noteq> []" and "FileLogger lc < length (loggers w)"
  shows "fst (saveToLogFile env lc pfx msg w)
           = Return (snd (fst (os_OpenFile env (LogTarget lc) {O_APPEND, O_CREATE, O_WRONLY}
                 (oct3 6 4 4) (snd (verifyLogDirectory env (LogTarget lc) w)))))"
    and "stdout (snd (saveToLogFile env lc pfx msg w))
           = stdout w
             @ (if creating env (LogTarget lc) w
                then ''Creating directory: '' @ log_dir (LogTarget lc) @ newline else [])
             @ (case snd (fst (os_OpenFile env (LogTarget lc) {O_APPEND, O_CREATE, O_WRONLY}
                   (oct3 6 4 4) (snd (verifyLogDirectory env (LogTarget lc) w)))) of
                  None \<Rightarrow> []
                | Some e \<Rightarrow> ''Error opening log file: '' @ err_Error e @ newline)"
proof -
  obtain fl err w2 where
    op: "os_OpenFile env (LogTarget lc) {O_APPEND, O_CREATE, O_WRONLY} (oct3 6 4 4)
           (snd (verifyLogDirectory env (LogTarget lc) w)) = ((fl, err), w2)"
    by (metis surj_pair)
  show "fst (saveToLogFile env lc pfx msg w)
           = Return (snd (fst (os_OpenFile env (LogTarget lc) {O_APPEND, O_CREATE, O_WRONLY}
                 (oct3 6 4 4) (snd (verifyLogDirectory env (LogTarget lc) w)))))"
  proof (cases err)
    case None
    with op saveToLogFile_ok[OF assms, of env fl w2] show ?thesis by simp
  next
    case (Some e)
    with op saveToLogFile_fail[OF assms(1), of env w fl e w2] show ?thesis by simp
  qed
  show "stdout (snd (saveToLogFile env lc pfx msg w))
           = stdout w
             @ (if creating env (LogTarget lc) w
                then ''Creating directory: '' @ log_dir (LogTarget lc) @ newline else [])
             @ (case snd (fst (os_OpenFile env (LogTarget lc) {O_APPEND, O_CREATE, O_WRONLY}
                   (oct3 6 4 4) (snd (verifyLogDirectory env (LogTarget lc) w)))) of
                  None \<Rightarrow> []
                | Some e \<Rightarrow> ''Error opening log file: '' @ err_Error e @ newline)"
  proof (cases err)
    case None
    with op saveToLogFile_ok[OF assms, of env fl w2] show ?thesis
      by (simp add: verifyLogDirectory_frame)
  next
    case (Some e)
    with op saveToLogFile_fail[OF assms(1), of env w fl e w2] show ?thesis
      by (simp add: verifyLogDirectory_frame write_stdout_def)
  qed
qed

lemma log_stdout_mono:
  assumes "FileLogger lc < length (loggers w)"
  shows "\<exists>rest. stdout (snd (log env lc lvl msg labels w)) = stdout w @ rest"
proof (cases "RemoteEnabled lc")
  case True
  then show ?thesis by (simp add: log_eq sendLog_stdout_mono)
next
  case False
  show ?thesis
  proof (cases "LogTarget lc = []")
    case True
    then show ?thesis by (simp add: log_empty)
  next
    case nonempty: False
    from False saveToLogFile_stdout(2)[OF nonempty assms] show ?thesis
      by (simp add: log_eq)
  qed
qed

lemma log_dir_client_local: "log_dir (LogTarget client_local) = ''/tmp/a/b''"
  by (simp add: log_dir_def client_local_def filepath_Split_def strings_TrimRight_def)

lemma dir_chain_tmp: "dir_chain ''/tmp/a/b'' = [''/tmp'', ''/tmp/a'', ''/tmp/a/b'']"
  by (simp add: dir_chain_def upt_rec)

lemma open_denied:
  "os_OpenFile env_denied (LogTarget client_local) {O_APPEND, O_CREATE, O_WRONLY} (oct3 6 4 4)
     (snd (verifyLogDirectory env_denied (LogTarget client_local) world_new))
   = ((None, Some (PathError ''open'' ''/tmp/a/b/app.log'' ENOENT)),
      snd (verifyLogDirectory env_denied (LogTarget client_local) world_new))"
  by (simp add: verifyLogDirectory_eq creating_def log_dir_client_local os_Stat_def
      os_MkdirAll_def os_OpenFile_def parent_exists_def log_dir_def[symmetric]
      env_denied_def env_ok_def world_new_def write_stdout_def)
    (simp add: client_local_def)





lemma TrimRight_last:
  assumes "strings_TrimRight s cs \<noteq> []"
  shows "last (strings_TrimRight s cs) \<notin> set cs"
proof -
  let ?d = "dropWhile (\<lambda>c. c \<in> set cs) (rev s)"
  from assms have ne: "?d \<noteq> []" by (simp add: strings_TrimRight_def)
  then have "hd ?d \<notin> set cs" by (rule hd_dropWhile)
  with ne show ?thesis by (simp add: strings_TrimRight_def last_rev)
qed

lemma self_in_dir_chain:
  assumes "s \<noteq> []" and "last s \<noteq> CHR ''/''"
  shows "s \<in> set (dir_chain s)"
proof -
  let ?i = "length s - 1"
  from assms(1) have i: "?i < length s" "Suc ?i = length s" by simp_all
  from assms have "s ! ?i \<noteq> CHR ''/''" by (simp add: last_conv_nth)
  with i have "\<exists>i<length s. s = take (Suc i) s \<and> s ! i \<noteq> CHR ''/''
       \<and> (Suc i = length s \<or> s ! Suc i = CHR ''/'')"
    by (intro exI[of _ ?i]) simp
  then show ?thesis by (auto simp: dir_chain_def)
qed

lemma log_dir_in_chain:
  "log_dir path \<noteq> [] \<Longrightarrow> log_dir path \<in> set (dir_chain (log_dir path))"
  using TrimRight_last[of "fst (filepath_Split path)" "''/''"]
  by (intro self_in_dir_chain) (simp_all add: log_dir_def)

lemma os_MkdirAll_write_stdout:
  "fst (os_MkdirAll env p perm (write_stdout s w)) = fst (os_MkdirAll env p perm w)"
  "dirs (snd (os_MkdirAll env p perm (write_stdout s w))) = dirs (snd (os_MkdirAll env p perm w))"
  by (simp_all add: os_MkdirAll_def write_stdout_def fun_eq_iff split: option.splits)

lemma os_MkdirAll_dirs:
  assumes "fst (os_MkdirAll env p perm w) = None"
  shows "dirs (snd (os_MkdirAll env p perm w)) =
           (\<lambda>d. if d \<in> set (dir_chain p) \<and> dirs w d = None then Some perm else dirs w d)"
  using assms by (simp add: os_MkdirAll_def split: option.splits if_splits)

lemma verifyLogDirectory_dirs:
  "dirs (snd (verifyLogDirectory env path w)) =
     (if creating env path w
      then dirs (snd (os_MkdirAll env (log_dir path) (oct3 7 6 6) w))
      else dirs w)"
  by (simp add: verifyLogDirectory_eq os_MkdirAll_write_stdout)

lemma saveToLogFile_nil:
  assumes "LogTarget lc \<noteq> []" and "FileLogger lc < length (loggers w)"
    and "saveToLogFile env lc pfx msg w = (Return None, w')"
  shows "w' = (snd (verifyLogDirectory env (LogTarget lc) w))
              \<lparr>files := (files w)(LogTarget lc \<mapsto>
                  (opened_node w (LogTarget lc))
                    \<lparr>content := content (opened_node w (LogTarget lc)) @ file_line env lc pfx msg w\<rparr>),
               fds := (fds w)(next_fd w := None),
               next_fd := Suc (next_fd w),
               loggers := (loggers w)[FileLogger lc :=
                  (loggers w ! FileLogger lc)
                    \<lparr>Logger_out := Some (FileWriter (Some (next_fd w))),
                     Logger_prefix := pfx @ '': ''\<rparr>]\<rparr>"
proof -
  obtain fl err w2 where
    op: "os_OpenFile env (LogTarget lc) {O_APPEND, O_CREATE, O_WRONLY} (oct3 6 4 4)
           (snd (verifyLogDirectory env (LogTarget lc) w)) = ((fl, err), w2)"
    by (metis surj_pair)
  from saveToLogFile_stdout(1)[OF assms(1,2), of env pfx msg] assms(3) op
  have "err = None" by simp
  with op saveToLogFile_ok[OF assms(1,2), of env fl w2 pfx msg] assms(3)
  show ?thesis by simp
qed


lemma creating_local:
  assumes "dirs w = Map.empty" and "files w = Map.empty"
  shows "creating env_ok (LogTarget client_local) w"
  using assms by (simp add: creating_def log_dir_client_local os_Stat_def env_ok_def)

lemma dirs_after_verify_local:
  assumes "dirs w = Map.empty" and "files w = Map.empty"
  shows "dirs (snd (verifyLogDirectory env_ok (LogTarget client_local) w))
     = (\<lambda>d. if d \<in> set [''/tmp'', ''/tmp/a'', ''/tmp/a/b''] then Some (oct3 7 6 6) else None)"
proof -
  have "dirs (snd (verifyLogDirectory env_ok (LogTarget client_local) w))
        = dirs (snd (os_MkdirAll env_ok ''/tmp/a/b'' (oct3 7 6 6) w))"
    by (simp add: verifyLogDirectory_dirs creating_local[OF assms] log_dir_client_local)
  also have "\<dots> = (\<lambda>d. if d \<in> set [''/tmp'', ''/tmp/a'', ''/tmp/a/b'']
                         then Some (oct3 7 6 6) else None)"
    using assms by (simp add: os_MkdirAll_def env_ok_def dir_chain_tmp fun_eq_iff)
  finally show ?thesis .
qed

lemma open_ok_local:
  assumes "dirs w = Map.empty" and "files w = Map.empty"
  shows "snd (fst (os_OpenFile env_ok (LogTarget client_local) {O_APPEND, O_CREATE, O_WRONLY}
       (oct3 6 4 4) (snd (verifyLogDirectory env_ok (LogTarget client_local) w)))) = None"
proof -
  let ?v = "snd (verifyLogDirectory env_ok (LogTarget client_local) w)"
  have t: "LogTarget client_local = ''/tmp/a/b/app.log''"
    by (simp add: client_local_def)
  have p: "parent_exists (LogTarget client_local) ?v"
    by (simp add: parent_exists_def log_dir_def[symmetric] log_dir_client_local
        dirs_after_verify_local[OF assms])
  have d: "dirs ?v (LogTarget client_local) = None"
    by (simp add: dirs_after_verify_local[OF assms]) (simp add: t)
  have f: "files ?v (LogTarget client_local) = None"
    using assms by (simp add: verifyLogDirectory_frame)
  have e: "open_fault env_ok (LogTarget client_local) = None"
    by (simp add: env_ok_def)
  show ?thesis
    by (simp add: os_OpenFile_def p d f e)
qed

lemma world_new_fs: "dirs world_new = Map.empty" "files world_new = Map.empty"
  by (simp_all add: world_new_def)

lemma saveToLogFile_reopen:
  assumes "LogTarget lc \<noteq> []" and "FileLogger lc < length (loggers w)"
    and "open_fault env (LogTarget lc) = None"
    and "dirs (snd (verifyLogDirectory env (LogTarget lc) w)) (LogTarget lc) = None"
    and "files w (LogTarget lc) \<noteq> None"
  shows "fst (saveToLogFile env lc pfx msg w) = Return None"
proof -
  have "snd (fst (os_OpenFile env (LogTarget lc) {O_APPEND, O_CREATE, O_WRONLY} (oct3 6 4 4)
          (snd (verifyLogDirectory env (LogTarget lc) w)))) = None"
    using assms(3,4,5) by (auto simp: os_OpenFile_def verifyLogDirectory_frame)
  then show ?thesis
    by (simp add: saveToLogFile_stdout(1)[OF assms(1,2)])
qed

lemma NewClient_eq:
  "NewClient owner remote target w =
     (Return \<lparr>OwningServiceName = owner, RemoteEnabled = remote, LogTarget = target,
              StdOutLogger = length (loggers w), FileLogger = Suc (length (loggers w))\<rparr>,
      w\<lparr>loggers := loggers w @
           [\<lparr>Logger_prefix = [], Logger_flag = {Ldate, Ltime, Lshortfile},
             Logger_out = Some Stdout\<rparr>,
            \<lparr>Logger_prefix = [], Logger_flag = {Ldate, Ltime, Lshortfile},
             Logger_out = None\<rparr>]\<rparr>)"
  by (simp add: NewClient_def log_New_def alloc_Logger_def andThen_def return_def
      Logger_SetFlags_def Logger_update_def nth_append)

lemma NewClient_valid:
  "NewClient owner remote target w = (Return lc, w') \<Longrightarrow> valid_client lc w'"
  by (auto simp: NewClient_eq valid_client_def nth_append)

lemma sendLog_loggers: "loggers (snd (sendLog env lc e w)) = loggers w"
proof (cases "LogTarget lc = []")
  case True
  then show ?thesis by (simp add: sendLog_empty)
next
  case False
  then show ?thesis
    by (simp add: sendLog_cases write_stdout_def split: option.splits)
qed

lemma saveToLogFile_loggers:
  assumes "LogTarget lc \<noteq> []" and "FileLogger lc < length (loggers w)"
  shows "loggers (snd (saveToLogFile env lc pfx msg w)) =
           (if fst (saveToLogFile env lc pfx msg w) = Return None
            then (loggers w)[FileLogger lc :=
                   (loggers w ! FileLogger lc)
                     \<lparr>Logger_out := Some (FileWriter (Some (next_fd w))),
                      Logger_prefix := pfx @ '': ''\<rparr>]
            else loggers w)"
proof -
  obtain fl err w2 where
    op: "os_OpenFile env (LogTarget lc) {O_APPEND, O_CREATE, O_WRONLY} (oct3 6 4 4)
           (snd (verifyLogDirectory env (LogTarget lc) w)) = ((fl, err), w2)"
    by (metis surj_pair)
  show ?thesis
  proof (cases err)
    case None
    with op saveToLogFile_ok[OF assms, of env fl w2 pfx msg] show ?thesis by simp
  next
    case (Some e)
    with op saveToLogFile_fail[OF assms(1), of env w fl e w2 pfx msg] show ?thesis
      by (simp add: write_stdout_def verifyLogDirectory_frame)
  qed
qed

lemma log_loggers:
  assumes "FileLogger lc < length (loggers w)"
  shows "loggers (snd (log env lc lvl msg labels w)) =
           (if \<not> RemoteEnabled lc \<and> LogTarget lc \<noteq> []
               \<and> fst (log env lc lvl msg labels w) = Return None
            then (loggers w)[FileLogger lc :=
                   (loggers w ! FileLogger lc)
                     \<lparr>Logger_out := Some (FileWriter (Some (next_fd w))),
                      Logger_prefix := string_of_LogLevel lvl @ '': ''\<rparr>]
            else loggers w)"
proof (cases "RemoteEnabled lc")
  case True
  then show ?thesis by (simp add: log_eq sendLog_loggers)
next
  case False
  show ?thesis
  proof (cases "LogTarget lc = []")
    case True
    then show ?thesis by (simp add: log_empty)
  next
    case nonempty: False
    from False nonempty saveToLogFile_loggers[OF nonempty assms] show ?thesis
      by (simp add: log_eq)
  qed
qed

lemma NewClient_world_new:
  "NewClient ''svc'' False ''/tmp/a/b/app.log'' (world_new\<lparr>loggers := []\<rparr>)
   = (Return client_local, world_new)"
  by (simp add: NewClient_eq client_local_def world_new_def std_flags_def)

lemma os_MkdirAll_failed:
  "fst (os_MkdirAll env p perm w) \<noteq> None \<Longrightarrow> snd (os_MkdirAll env p perm w) = w"
  by (auto simp: os_MkdirAll_def split: option.splits if_splits)

lemma saveToLogFile_dirs:
  assumes "LogTarget lc \<noteq> []" and "FileLogger lc < length (loggers w)"
  shows "dirs (snd (saveToLogFile env lc pfx msg w))
           = dirs (snd (verifyLogDirectory env (LogTarget lc) w))"
proof -
  obtain fl err w2 where
    op: "os_OpenFile env (LogTarget lc) {O_APPEND, O_CREATE, O_WRONLY} (oct3 6 4 4)
           (snd (verifyLogDirectory env (LogTarget lc) w)) = ((fl, err), w2)"
    by (metis surj_pair)
  show ?thesis
  proof (cases err)
    case None
    with op saveToLogFile_ok[OF assms, of env fl w2 pfx msg] show ?thesis by simp
  next
    case (Some e)
    with op saveToLogFile_fail[OF assms(1), of env w fl e w2 pfx msg] show ?thesis
      by (simp add: write_stdout_def)
  qed
qed

lemma saveToLogFile_fail_frame:
  assumes "LogTarget lc \<noteq> []" and "FileLogger lc < length (loggers w)"
    and "fst (saveToLogFile env lc pfx msg w) \<noteq> Return None"
  shows "files (snd (saveToLogFile env lc pfx msg w)) = files w"
    and "fds (snd (saveToLogFile env lc pfx msg w)) = fds w"
    and "next_fd (snd (saveToLogFile env lc pfx msg w)) = next_fd w"
    and "loggers (snd (saveToLogFile env lc pfx msg w)) = loggers w"
proof -
  obtain fl err w2 where
    op: "os_OpenFile env (LogTarget lc) {O_APPEND, O_CREATE, O_WRONLY} (oct3 6 4 4)
           (snd (verifyLogDirectory env (LogTarget lc) w)) = ((fl, err), w2)"
    by (metis surj_pair)
  from saveToLogFile_stdout(1)[OF assms(1,2), of env pfx msg] assms(3) op
  obtain e where e: "err = Some e" by (cases err) simp_all
  note f = saveToLogFile_fail[OF assms(1) op[unfolded e], of pfx msg]
  show "files (snd (saveToLogFile env lc pfx msg w)) = files w"
    and "fds (snd (saveToLogFile env lc pfx msg w)) = fds w"
    and "next_fd (snd (saveToLogFile env lc pfx msg w)) = next_fd w"
    and "loggers (snd (saveToLogFile env lc pfx msg w)) = loggers w"
    by (simp_all add: f write_stdout_def verifyLogDirectory_frame)
qed

section \<open>The claims\<close>

text \<open>
  C6. \<open>Trace\<close> does nothing: for every message and labels it returns and leaves the whole
  world as it was, so standard output, files, directories, logger objects, pending
  goroutines and the wire are untouched.
\<close>

theorem Trace_does_nothing:
  "Trace lc msg labels w = (Return (), w)"
  by (simp add: Trace_def return_def)

text \<open>
  C9. In local mode the labels play no role: two calls of the same method that differ in
  their labels only give the same result and the same world (the same returned error, the
  same standard output, the same file contents).
\<close>

theorem local_labels_ignored:
  assumes "(lvl, loc, m) \<in> set methods" and "\<not> RemoteEnabled lc"
  shows "m env lc msg labels1 w = m env lc msg labels2 w"
  using assms
  by (auto simp: methods_def Info_def Debug_def Warn_def Error_def log_def)

theorem local_labels_ignored_witness:
  "\<not> RemoteEnabled client_local
   \<and> Warn env_ok client_local ''low disk'' [''tag1'', ''tag2''] world_new
     = Warn env_ok client_local ''low disk'' [] world_new"
proof -
  have h1: "(WARN, ''logger.go:126'', Warn) \<in> set methods"
    by (simp add: methods_def)
  have h2: "\<not> RemoteEnabled client_local"
    by (simp add: client_local_def)
  from local_labels_ignored[OF h1 h2] h2 show ?thesis by simp
qed

text \<open>
  C1. A client whose log target is the empty string: each of \<open>Info\<close>, \<open>Debug\<close>, \<open>Warn\<close>
  and \<open>Error\<close>, in local and in remote mode, returns nil, and the world after the call is
  the world after the echo on standard output: no file or directory is written or created,
  no descriptor is opened, no goroutine is started and nothing is sent.
\<close>

theorem empty_target_noop:
  assumes "(lvl, loc, m) \<in> set methods" and "valid_client lc w" and "LogTarget lc = []"
  shows "m env lc msg labels w
           = (Return None, std_echo env lc (string_of_LogLevel lvl @ '': '') loc msg w)
         \<and> files (snd (m env lc msg labels w)) = files w
         \<and> dirs (snd (m env lc msg labels w)) = dirs w
         \<and> fds (snd (m env lc msg labels w)) = fds w
         \<and> next_fd (snd (m env lc msg labels w)) = next_fd w
         \<and> spawned (snd (m env lc msg labels w)) = spawned w
         \<and> wire (snd (m env lc msg labels w)) = wire w"
  by (simp add: method_unfold[OF assms(1,2)] log_empty[OF assms(3)] std_echo_def)

theorem empty_target_noop_witness:
  "valid_client client_off world_new \<and> LogTarget client_off = []
   \<and> Error env_ok client_off ''boom'' [''x''] world_new
     = (Return None, std_echo env_ok client_off ''ERROR: '' ''logger.go:133'' ''boom'' world_new)
   \<and> files (snd (Error env_ok client_off ''boom'' [''x''] world_new)) = files world_new
   \<and> spawned (snd (Error env_ok client_off ''boom'' [''x''] world_new)) = spawned world_new
   \<and> wire (snd (Error env_ok client_off ''boom'' [''x''] world_new)) = wire world_new"
proof -
  have h1: "(ERROR, ''logger.go:133'', Error) \<in> set methods"
    by (simp add: methods_def)
  have h2: "valid_client client_off world_new"
    by (simp add: valid_client_def client_off_def world_new_def)
  have h3: "LogTarget client_off = []"
    by (simp add: client_off_def)
  from empty_target_noop[OF h1 h2 h3, of env_ok "''boom''" "[''x'']"] h2 h3
  show ?thesis by (simp add: std_echo_def)
qed

text \<open>
  C2. Each of \<open>Info\<close>, \<open>Debug\<close>, \<open>Warn\<close> and \<open>Error\<close> hands its own level, the message and
  the labels to the dispatch routine \<open>log\<close> (after the echo on standard output), and \<open>log\<close>
  selects the file sink when \<open>RemoteEnabled\<close> is false; when it is true \<open>log\<close> passes to
  \<open>sendLog\<close> the entry whose level is the method's level, whose message is the given
  message, whose labels are the given labels in their order and whose origin service is the
  client's owning service name.
\<close>

theorem dispatch_selects_sink:
  assumes "(lvl, loc, m) \<in> set methods" and "valid_client lc w"
  shows "m env lc msg labels w
           = log env lc lvl msg labels (std_echo env lc (string_of_LogLevel lvl @ '': '') loc msg w)
         \<and> log env lc lvl msg labels =
             (if \<not> RemoteEnabled lc then saveToLogFile env lc (string_of_LogLevel lvl) msg
              else sendLog env lc \<lparr>Level = lvl, Message = msg, Labels = labels,
                                    OriginService = OwningServiceName lc\<rparr>)"
  using method_unfold[OF assms] log_eq by simp

theorem dispatch_selects_sink_witness:
  "valid_client client_remote world_new
   \<and> Warn env_ok client_remote ''low disk'' [''tag1''] world_new
       = log env_ok client_remote WARN ''low disk'' [''tag1'']
           (std_echo env_ok client_remote ''WARN: '' ''logger.go:126'' ''low disk'' world_new)
   \<and> log env_ok client_remote WARN ''low disk'' [''tag1'']
       = sendLog env_ok client_remote
           \<lparr>Level = WARN, Message = ''low disk'', Labels = [''tag1''], OriginService = ''svc''\<rparr>"
proof -
  have h1: "(WARN, ''logger.go:126'', Warn) \<in> set methods"
    by (simp add: methods_def)
  have h2: "valid_client client_remote world_new"
    by (simp add: valid_client_def client_remote_def world_new_def)
  have h3: "RemoteEnabled client_remote" "OwningServiceName client_remote = ''svc''"
    by (simp_all add: client_remote_def)
  from dispatch_selects_sink[OF h1 h2, of env_ok "''low disk''" "[''tag1'']"] h2 h3
  show ?thesis by simp
qed

text \<open>
  C4. For each of the levels INFO, DEBUG, WARN and ERROR, every message and every valid
  client (remote or local, any target): the method first writes to standard output the
  line that starts with the level name and \<open>": "\<close> (then the logger's header, the message
  and a newline), and only then calls the dispatch routine; what the dispatch prints comes
  after that line.
\<close>

theorem stdout_echo_first:
  assumes "(lvl, loc, m) \<in> set methods" and "valid_client lc w"
  shows "\<exists>w1 rest.
           m env lc msg labels w = log env lc lvl msg labels w1
         \<and> stdout w1 = stdout w @ string_of_LogLevel lvl @ '': ''
                         @ log_header env (Logger_flag (loggers w ! StdOutLogger lc)) loc
                         @ msg @ newline
         \<and> stdout (snd (m env lc msg labels w)) = stdout w1 @ rest"
proof -
  let ?w1 = "std_echo env lc (string_of_LogLevel lvl @ '': '') loc msg w"
  have "FileLogger lc < length (loggers ?w1)"
    using assms(2) by (simp add: valid_client_def std_echo_def)
  from log_stdout_mono[OF this, of env lvl msg labels]
  obtain rest where "stdout (snd (log env lc lvl msg labels ?w1)) = stdout ?w1 @ rest" ..
  then show ?thesis
    using method_unfold[OF assms, of env msg labels]
    by (intro exI[of _ ?w1] exI[of _ rest]) (simp add: std_echo_def)
qed

theorem stdout_echo_first_witness:
  "valid_client client_local world_new
   \<and> (\<exists>w1 rest.
         Info env_ok client_local ''hello'' [] world_new
           = log env_ok client_local INFO ''hello'' [] w1
       \<and> stdout w1 = stdout world_new @ ''INFO: ''
                       @ log_header env_ok
                           (Logger_flag (loggers world_new ! StdOutLogger client_local))
                           ''logger.go:107''
                       @ ''hello'' @ newline
       \<and> stdout (snd (Info env_ok client_local ''hello'' [] world_new)) = stdout w1 @ rest)"
proof -
  have h1: "(INFO, ''logger.go:107'', Info) \<in> set methods"
    by (simp add: methods_def)
  have h2: "valid_client client_local world_new"
    by (simp add: valid_client_def client_local_def world_new_def)
  from stdout_echo_first[OF h1 h2, of env_ok "''hello''" "[]"] h2
  show ?thesis by simp
qed



text \<open>
  C3, as the code has it. In the file sink with a non-empty target, \<open>verifyLogDirectory\<close>
  returns nothing and prints at most the line \<open>"Creating directory: <dir>"\<close>, before the
  attempt and whether or not \<open>MkdirAll\<close> succeeds: the result of \<open>MkdirAll\<close> is dropped, so a
  directory-creation failure is neither printed nor returned. What the sink returns is
  exactly the error of \<open>OpenFile\<close> (nil when the open succeeds), and after the directory
  step it prints exactly the line \<open>"Error opening log file: <error>"\<close> when the open fails
  and nothing otherwise.
\<close>

theorem file_sink_error_taxonomy:
  assumes "LogTarget lc \<noteq> []" and "FileLogger lc < length (loggers w)"
  shows "fst (verifyLogDirectory env (LogTarget lc) w) = Return ()
       \<and> stdout (snd (verifyLogDirectory env (LogTarget lc) w))
           = stdout w @ (if creating env (LogTarget lc) w
                         then ''Creating directory: '' @ log_dir (LogTarget lc) @ newline else [])
       \<and> fst (saveToLogFile env lc pfx msg w)
           = Return (snd (fst (os_OpenFile env (LogTarget lc) {O_APPEND, O_CREATE, O_WRONLY}
                 (oct3 6 4 4) (snd (verifyLogDirectory env (LogTarget lc) w)))))
       \<and> stdout (snd (saveToLogFile env lc pfx msg w))
           = stdout (snd (verifyLogDirectory env (LogTarget lc) w))
             @ (case snd (fst (os_OpenFile env (LogTarget lc) {O_APPEND, O_CREATE, O_WRONLY}
                   (oct3 6 4 4) (snd (verifyLogDirectory env (LogTarget lc) w)))) of
                  None \<Rightarrow> []
                | Some e \<Rightarrow> ''Error opening log file: '' @ err_Error e @ newline)"
  using saveToLogFile_stdout[OF assms, of env pfx msg]
  by (simp add: verifyLogDirectory_frame)

theorem file_sink_error_taxonomy_witness:
  "LogTarget client_local \<noteq> [] \<and> FileLogger client_local < length (loggers world_new)
   \<and> fst (os_MkdirAll env_denied (log_dir (LogTarget client_local)) (oct3 7 6 6) world_new)
       = Some (PathError ''mkdir'' ''/tmp/a/b'' EACCES)
   \<and> fst (verifyLogDirectory env_denied (LogTarget client_local) world_new) = Return ()
   \<and> fst (saveToLogFile env_denied client_local ''INFO'' ''hello'' world_new)
       = Return (Some (PathError ''open'' ''/tmp/a/b/app.log'' ENOENT))"
proof -
  have h1: "LogTarget client_local \<noteq> []"
    by (simp add: client_local_def)
  have h2: "FileLogger client_local < length (loggers world_new)"
    by (simp add: client_local_def world_new_def)
  have h3: "fst (os_MkdirAll env_denied (log_dir (LogTarget client_local)) (oct3 7 6 6) world_new)
       = Some (PathError ''mkdir'' ''/tmp/a/b'' EACCES)"
    by (simp add: log_dir_client_local os_MkdirAll_def env_denied_def)
  from file_sink_error_taxonomy[OF h1 h2, of env_denied "''INFO''" "''hello''"] h1 h2 h3
  show ?thesis by (simp add: open_denied)
qed

text \<open>
  C3 as stated fails: with \<open>MkdirAll\<close> denied, standard output holds the announcement and
  the open error only, and it is the same output as in a run where \<open>MkdirAll\<close> succeeds and
  the open fails with that error. The directory-creation failure is not logged.
\<close>

theorem mkdir_failure_not_logged:
  "fst (os_MkdirAll env_denied (log_dir (LogTarget client_local)) (oct3 7 6 6) world_new)
     = Some (PathError ''mkdir'' ''/tmp/a/b'' EACCES)
   \<and> stdout (snd (saveToLogFile env_denied client_local ''INFO'' ''hello'' world_new))
     = ''Creating directory: /tmp/a/b'' @ newline
       @ ''Error opening log file: open /tmp/a/b/app.log: no such file or directory'' @ newline
   \<and> fst (os_MkdirAll env_enoent (log_dir (LogTarget client_local)) (oct3 7 6 6) world_new)
     = None
   \<and> stdout (snd (saveToLogFile env_enoent client_local ''INFO'' ''hello'' world_new))
     = stdout (snd (saveToLogFile env_denied client_local ''INFO'' ''hello'' world_new))"
proof -
  have h1: "LogTarget client_local \<noteq> []"
    by (simp add: client_local_def)
  have h2: "FileLogger client_local < length (loggers world_new)"
    by (simp add: client_local_def world_new_def)
  have c1: "creating env_denied (LogTarget client_local) world_new"
    by (simp add: creating_def log_dir_client_local os_Stat_def env_denied_def env_ok_def
        world_new_def)
  have c2: "creating env_enoent (LogTarget client_local) world_new"
    by (simp add: creating_def log_dir_client_local os_Stat_def env_enoent_def env_ok_def
        world_new_def)
  have o2: "snd (fst (os_OpenFile env_enoent (LogTarget client_local)
              {O_APPEND, O_CREATE, O_WRONLY} (oct3 6 4 4)
              (snd (verifyLogDirectory env_enoent (LogTarget client_local) world_new))))
            = Some (PathError ''open'' ''/tmp/a/b/app.log'' ENOENT)"
    by (simp add: os_OpenFile_def env_enoent_def client_local_def)
  have m1: "fst (os_MkdirAll env_denied (log_dir (LogTarget client_local)) (oct3 7 6 6) world_new)
       = Some (PathError ''mkdir'' ''/tmp/a/b'' EACCES)"
    by (simp add: log_dir_client_local os_MkdirAll_def env_denied_def)
  have m2: "fst (os_MkdirAll env_enoent (log_dir (LogTarget client_local)) (oct3 7 6 6) world_new)
       = None"
    by (simp add: log_dir_client_local os_MkdirAll_def env_enoent_def env_ok_def dir_chain_tmp
        world_new_def)
  have s0: "stdout world_new = []"
    by (simp add: world_new_def)
  show ?thesis
    using m1 m2
    by (simp add: saveToLogFile_stdout(2)[OF h1 h2] c1 c2 o2 open_denied log_dir_client_local s0)
qed





text \<open>
  C7, as the code has it. For every call of the file sink with a non-empty target:
  the sink returns exactly the error of opening the target with
  \<open>O_APPEND|O_CREATE|O_WRONLY\<close> and mode 0644 after the directory step. The directory
  step, whatever the open does: if the directory of the target (trailing slashes trimmed)
  is non-empty and \<open>Stat\<close> reports it missing, the directories afterwards are those
  \<open>MkdirAll\<close> with mode 0766 leaves, so on its success the directory and all its ancestors
  exist and a directory that was missing has mode 0766, and on its failure no directory
  changes; otherwise no directory changes. When the sink returns nil, the target file is
  the one found, with its contents and mode kept, or a new empty one of mode 0644, with the
  line \<open>"<LEVEL>: "\<close>, header, message, newline appended; no other file changes; the file
  logger's prefix is \<open>"<LEVEL>: "\<close> and its output the opened file, which is closed again.
  When the sink returns an error, no file, no logger object and no descriptor changes: the
  prefix is set and the line written only when the open succeeds. After a call that
  returned nil, a second call appends its line after the first one if it returns nil and
  leaves the file as it is otherwise: nothing is truncated or created anew.
\<close>

theorem file_sink_appends:
  assumes "LogTarget lc \<noteq> []" and "FileLogger lc < length (loggers w)"
    and "saveToLogFile env lc (string_of_LogLevel lvl) msg w = (r, w')"
  shows "r = Return (snd (fst (os_OpenFile env (LogTarget lc) {O_APPEND, O_CREATE, O_WRONLY}
                 (oct3 6 4 4) (snd (verifyLogDirectory env (LogTarget lc) w)))))
       \<and> dirs w' = (if creating env (LogTarget lc) w
                     then dirs (snd (os_MkdirAll env (log_dir (LogTarget lc)) (oct3 7 6 6) w))
                     else dirs w)
       \<and> (creating env (LogTarget lc) w \<and> dirs w (log_dir (LogTarget lc)) = None
            \<and> fst (os_MkdirAll env (log_dir (LogTarget lc)) (oct3 7 6 6) w) = None
          \<longrightarrow> dirs w' (log_dir (LogTarget lc)) = Some (oct3 7 6 6)
              \<and> (\<forall>d \<in> set (dir_chain (log_dir (LogTarget lc))). dirs w' d \<noteq> None))
       \<and> (creating env (LogTarget lc) w
            \<and> fst (os_MkdirAll env (log_dir (LogTarget lc)) (oct3 7 6 6) w) \<noteq> None
          \<longrightarrow> dirs w' = dirs w)
       \<and> (\<not> creating env (LogTarget lc) w \<longrightarrow> dirs w' = dirs w)
       \<and> (r = Return None
          \<longrightarrow> files w' = (files w)(LogTarget lc \<mapsto>
                  (opened_node w (LogTarget lc))
                    \<lparr>content := content (opened_node w (LogTarget lc))
                         @ file_line env lc (string_of_LogLevel lvl) msg w\<rparr>)
              \<and> Logger_prefix (loggers w' ! FileLogger lc) = string_of_LogLevel lvl @ '': ''
              \<and> Logger_out (loggers w' ! FileLogger lc) = Some (FileWriter (Some (next_fd w)))
              \<and> fds w' (next_fd w) = None)
       \<and> (r \<noteq> Return None
          \<longrightarrow> files w' = files w \<and> loggers w' = loggers w \<and> fds w' = fds w)
       \<and> (r = Return None
            \<and> saveToLogFile env' lc (string_of_LogLevel lvl') msg' w' = (r', w'')
          \<longrightarrow> files w'' (LogTarget lc)
                = Some ((opened_node w (LogTarget lc))
                     \<lparr>content := content (opened_node w (LogTarget lc))
                          @ file_line env lc (string_of_LogLevel lvl) msg w
                          @ (if r' = Return None
                             then file_line env' lc (string_of_LogLevel lvl') msg' w'
                             else [])\<rparr>))"
proof -
  from assms(3) have r: "r = fst (saveToLogFile env lc (string_of_LogLevel lvl) msg w)"
    and w': "w' = snd (saveToLogFile env lc (string_of_LogLevel lvl) msg w)"
    by simp_all
  have res: "r = Return (snd (fst (os_OpenFile env (LogTarget lc) {O_APPEND, O_CREATE, O_WRONLY}
                 (oct3 6 4 4) (snd (verifyLogDirectory env (LogTarget lc) w)))))"
    unfolding r by (rule saveToLogFile_stdout(1)[OF assms(1,2)])
  have dirs: "dirs w' = (if creating env (LogTarget lc) w
                     then dirs (snd (os_MkdirAll env (log_dir (LogTarget lc)) (oct3 7 6 6) w))
                     else dirs w)"
    unfolding w' by (simp add: saveToLogFile_dirs[OF assms(1,2)] verifyLogDirectory_dirs)
  have mk: "dirs w' (log_dir (LogTarget lc)) = Some (oct3 7 6 6)
              \<and> (\<forall>d \<in> set (dir_chain (log_dir (LogTarget lc))). dirs w' d \<noteq> None)"
    if "creating env (LogTarget lc) w" and "dirs w (log_dir (LogTarget lc)) = None"
      and "fst (os_MkdirAll env (log_dir (LogTarget lc)) (oct3 7 6 6) w) = None"
  proof -
    from that(1) have "log_dir (LogTarget lc) \<noteq> []" by (simp add: creating_def)
    then have "log_dir (LogTarget lc) \<in> set (dir_chain (log_dir (LogTarget lc)))"
      by (rule log_dir_in_chain)
    then show ?thesis
      using that by (simp add: dirs os_MkdirAll_dirs)
  qed
  have mkfail: "dirs w' = dirs w"
    if "creating env (LogTarget lc) w"
      and "fst (os_MkdirAll env (log_dir (LogTarget lc)) (oct3 7 6 6) w) \<noteq> None"
    using that by (simp add: dirs os_MkdirAll_failed)
  have nomk: "dirs w' = dirs w" if "\<not> creating env (LogTarget lc) w"
    using that by (simp add: dirs)
  have ok: "files w' = (files w)(LogTarget lc \<mapsto>
                  (opened_node w (LogTarget lc))
                    \<lparr>content := content (opened_node w (LogTarget lc))
                         @ file_line env lc (string_of_LogLevel lvl) msg w\<rparr>)
              \<and> Logger_prefix (loggers w' ! FileLogger lc) = string_of_LogLevel lvl @ '': ''
              \<and> Logger_out (loggers w' ! FileLogger lc) = Some (FileWriter (Some (next_fd w)))
              \<and> fds w' (next_fd w) = None"
    if "r = Return None"
  proof -
    from that assms(3)
    have c: "saveToLogFile env lc (string_of_LogLevel lvl) msg w = (Return None, w')" by simp
    note e = saveToLogFile_nil[OF assms(1,2) c]
    show ?thesis
      using assms(2) by (subst e, subst e, subst e, subst e) simp
  qed
  have bad: "files w' = files w \<and> loggers w' = loggers w \<and> fds w' = fds w"
    if "r \<noteq> Return None"
    using that saveToLogFile_fail_frame[OF assms(1,2), of env "string_of_LogLevel lvl" msg]
    unfolding r w' by simp
  have second: "files w'' (LogTarget lc)
                = Some ((opened_node w (LogTarget lc))
                     \<lparr>content := content (opened_node w (LogTarget lc))
                          @ file_line env lc (string_of_LogLevel lvl) msg w
                          @ (if r' = Return None
                             then file_line env' lc (string_of_LogLevel lvl') msg' w'
                             else [])\<rparr>)"
    if "r = Return None"
      and "saveToLogFile env' lc (string_of_LogLevel lvl') msg' w' = (r', w'')"
  proof -
    from ok[OF that(1)] have f': "files w' (LogTarget lc)
           = Some ((opened_node w (LogTarget lc))
                \<lparr>content := content (opened_node w (LogTarget lc))
                     @ file_line env lc (string_of_LogLevel lvl) msg w\<rparr>)"
      by simp
    from that(1) assms(3)
    have c: "saveToLogFile env lc (string_of_LogLevel lvl) msg w = (Return None, w')" by simp
    have l': "FileLogger lc < length (loggers w')"
      using assms(2) by (subst saveToLogFile_nil[OF assms(1,2) c]) simp
    show ?thesis
    proof (cases "r' = Return None")
      case True
      with that(2)
      have c': "saveToLogFile env' lc (string_of_LogLevel lvl') msg' w' = (Return None, w'')"
        by simp
      have "files w'' (LogTarget lc)
           = Some ((opened_node w' (LogTarget lc))
                \<lparr>content := content (opened_node w' (LogTarget lc))
                     @ file_line env' lc (string_of_LogLevel lvl') msg' w'\<rparr>)"
        by (subst saveToLogFile_nil[OF assms(1) l' c']) simp
      with True show ?thesis by (simp add: opened_node_def[of w'] f')
    next
      case False
      from that(2) have "r' = fst (saveToLogFile env' lc (string_of_LogLevel lvl') msg' w')"
        and "w'' = snd (saveToLogFile env' lc (string_of_LogLevel lvl') msg' w')"
        by simp_all
      with False saveToLogFile_fail_frame(1)[OF assms(1) l', of env' "string_of_LogLevel lvl'" msg']
      have "files w'' = files w'" by simp
      with False show ?thesis by (simp add: f')
    qed
  qed
  from res dirs mk mkfail nomk ok bad second show ?thesis by blast
qed

theorem file_sink_appends_witness:
  "LogTarget client_local \<noteq> [] \<and> FileLogger client_local < length (loggers world_new)
   \<and> fst (saveToLogFile env_ok client_local ''INFO'' ''hello'' world_new) = Return None
   \<and> files (snd (saveToLogFile env_ok client_local ''INFO'' ''hello'' world_new))
        ''/tmp/a/b/app.log''
       = Some \<lparr>mode = oct3 6 4 4,
               content = ''INFO: 2017/11/01 10:00:00 logger.go:87: hello'' @ newline\<rparr>
   \<and> dirs (snd (saveToLogFile env_ok client_local ''INFO'' ''hello'' world_new)) ''/tmp/a/b''
       = Some (oct3 7 6 6)
   \<and> Logger_prefix (loggers (snd (saveToLogFile env_ok client_local ''INFO'' ''hello'' world_new))
        ! FileLogger client_local) = ''INFO: ''
   \<and> fst (saveToLogFile env_ok client_local ''WARN'' ''again''
            (snd (saveToLogFile env_ok client_local ''INFO'' ''hello'' world_new))) = Return None
   \<and> files (snd (saveToLogFile env_ok client_local ''WARN'' ''again''
            (snd (saveToLogFile env_ok client_local ''INFO'' ''hello'' world_new))))
        ''/tmp/a/b/app.log''
       = Some \<lparr>mode = oct3 6 4 4,
               content = ''INFO: 2017/11/01 10:00:00 logger.go:87: hello'' @ newline
                 @ ''WARN: 2017/11/01 10:00:00 logger.go:87: again'' @ newline\<rparr>
   \<and> fst (saveToLogFile env_enoent client_local ''INFO'' ''hello'' world_new)
       = Return (Some (PathError ''open'' ''/tmp/a/b/app.log'' ENOENT))
   \<and> dirs (snd (saveToLogFile env_enoent client_local ''INFO'' ''hello'' world_new)) ''/tmp/a/b''
       = Some (oct3 7 6 6)
   \<and> files (snd (saveToLogFile env_enoent client_local ''INFO'' ''hello'' world_new))
       = files world_new
   \<and> loggers (snd (saveToLogFile env_enoent client_local ''INFO'' ''hello'' world_new))
       = loggers world_new"
proof -
  let ?w1 = "snd (saveToLogFile env_ok client_local ''INFO'' ''hello'' world_new)"
  let ?w2 = "snd (saveToLogFile env_ok client_local ''WARN'' ''again'' ?w1)"
  have h1: "LogTarget client_local \<noteq> []"
    by (simp add: client_local_def)
  have h2: "FileLogger client_local < length (loggers world_new)"
    by (simp add: client_local_def world_new_def)
  have r: "fst (saveToLogFile env_ok client_local ''INFO'' ''hello'' world_new) = Return None"
    by (simp add: saveToLogFile_stdout(1)[OF h1 h2] open_ok_local[OF world_new_fs])
  then have h3: "saveToLogFile env_ok client_local (string_of_LogLevel INFO) ''hello'' world_new
                 = (Return None, ?w1)"
    by (simp add: prod_eq_iff)
  have h4: "dirs world_new (log_dir (LogTarget client_local)) = None"
    by (simp add: world_new_def)
  have h5: "fst (os_MkdirAll env_ok (log_dir (LogTarget client_local)) (oct3 7 6 6) world_new)
            = None"
    by (simp add: log_dir_client_local os_MkdirAll_def env_ok_def dir_chain_tmp world_new_def)
  have n: "opened_node world_new (LogTarget client_local) = \<lparr>mode = oct3 6 4 4, content = []\<rparr>"
    by (simp add: opened_node_def world_new_def)
  have l: "file_line env_ok client_local ''INFO'' ''hello'' world_new
           = ''INFO: 2017/11/01 10:00:00 logger.go:87: hello'' @ newline"
    by (simp add: file_line_def log_header_def env_ok_def client_local_def world_new_def
        std_flags_def)
  have t: "LogTarget client_local = ''/tmp/a/b/app.log''"
    by (simp add: client_local_def)
  note w1 = saveToLogFile_nil[OF h1 h2 h3]
  have lg: "loggers ?w1 = (loggers world_new)[FileLogger client_local :=
              (loggers world_new ! FileLogger client_local)
                \<lparr>Logger_out := Some (FileWriter (Some (next_fd world_new))),
                 Logger_prefix := ''INFO: ''\<rparr>]"
    by (subst w1) simp
  have d1: "dirs ?w1 = (\<lambda>d. if d \<in> set [''/tmp'', ''/tmp/a'', ''/tmp/a/b'']
                              then Some (oct3 7 6 6) else None)"
    by (subst w1) (simp add: dirs_after_verify_local[OF world_new_fs])
  have f1: "files ?w1 (LogTarget client_local) \<noteq> None"
    by (subst w1) simp
  have l1: "FileLogger client_local < length (loggers ?w1)"
    by (simp add: lg h2)
  have sf: "stat_fault env_ok ''/tmp/a/b'' = None"
    by (simp add: env_ok_def)
  have nc: "\<not> creating env_ok (LogTarget client_local) ?w1"
    by (simp add: creating_def log_dir_client_local os_Stat_def d1 sf)
  have d2: "dirs (snd (verifyLogDirectory env_ok (LogTarget client_local) ?w1))
              (LogTarget client_local) = None"
    by (simp add: verifyLogDirectory_dirs nc d1) (simp add: t)
  have e: "open_fault env_ok (LogTarget client_local) = None"
    by (simp add: env_ok_def)
  have r2: "fst (saveToLogFile env_ok client_local ''WARN'' ''again'' ?w1) = Return None"
    by (rule saveToLogFile_reopen[OF h1 l1 e d2 f1])
  then have h6: "saveToLogFile env_ok client_local (string_of_LogLevel WARN) ''again'' ?w1
            = (Return None, ?w2)"
    by (simp add: prod_eq_iff)
  have l2: "file_line env_ok client_local ''WARN'' ''again'' ?w1
           = ''WARN: 2017/11/01 10:00:00 logger.go:87: again'' @ newline"
  proof -
    have "Logger_flag (loggers ?w1 ! FileLogger client_local)
          = Logger_flag (loggers world_new ! FileLogger client_local)"
      using h2 by (simp add: lg)
    also have "\<dots> = std_flags"
      by (simp add: client_local_def world_new_def)
    finally have fl: "Logger_flag (loggers ?w1 ! FileLogger client_local) = std_flags" .
    have dt: "date env_ok = ''2017/11/01''" "time env_ok = ''10:00:00''"
      by (simp_all add: env_ok_def)
    show ?thesis
      by (simp add: file_line_def fl log_header_def std_flags_def dt)
  qed
  note th = file_sink_appends[OF h1 h2 h3, where env' = env_ok and lvl' = WARN
      and msg' = "''again''" and r' = "Return None" and w'' = ?w2]
  note th_mk = th[THEN conjunct2, THEN conjunct2, THEN conjunct1]
  note th_ok = th[THEN conjunct2, THEN conjunct2, THEN conjunct2, THEN conjunct2,
      THEN conjunct2, THEN conjunct1]
  note th_second = th[THEN conjunct2, THEN conjunct2, THEN conjunct2, THEN conjunct2,
      THEN conjunct2, THEN conjunct2, THEN conjunct2]
  from th_ok have a1: "files ?w1 ''/tmp/a/b/app.log''
       = Some \<lparr>mode = oct3 6 4 4,
               content = ''INFO: 2017/11/01 10:00:00 logger.go:87: hello'' @ newline\<rparr>"
    by (simp add: n[unfolded t] l t)
  from th_mk creating_local[OF world_new_fs] h4 h5
  have a2: "dirs ?w1 ''/tmp/a/b'' = Some (oct3 7 6 6)"
    by (simp add: log_dir_client_local)
  from th_ok have a3: "Logger_prefix (loggers ?w1 ! FileLogger client_local) = ''INFO: ''"
    by simp
  from th_second h6 have a4: "files ?w2 ''/tmp/a/b/app.log''
       = Some \<lparr>mode = oct3 6 4 4,
               content = ''INFO: 2017/11/01 10:00:00 logger.go:87: hello'' @ newline
                 @ ''WARN: 2017/11/01 10:00:00 logger.go:87: again'' @ newline\<rparr>"
    by (simp add: n[unfolded t] l l2 t)
  let ?S = "saveToLogFile env_enoent client_local ''INFO'' ''hello'' world_new"
  have g3: "saveToLogFile env_enoent client_local (string_of_LogLevel INFO) ''hello'' world_new
            = (fst ?S, snd ?S)"
    by simp
  have c2: "creating env_enoent (LogTarget client_local) world_new"
    by (simp add: creating_def log_dir_client_local os_Stat_def env_enoent_def env_ok_def
        world_new_def)
  have m2: "fst (os_MkdirAll env_enoent (log_dir (LogTarget client_local)) (oct3 7 6 6) world_new)
            = None"
    by (simp add: log_dir_client_local os_MkdirAll_def env_enoent_def env_ok_def dir_chain_tmp
        world_new_def)
  have v2: "snd (fst (os_OpenFile env_enoent (LogTarget client_local)
              {O_APPEND, O_CREATE, O_WRONLY} (oct3 6 4 4)
              (snd (verifyLogDirectory env_enoent (LogTarget client_local) world_new))))
            = Some (PathError ''open'' ''/tmp/a/b/app.log'' ENOENT)"
    by (simp add: os_OpenFile_def env_enoent_def client_local_def)
  note th2 = file_sink_appends[OF h1 h2 g3]
  note th2_res = th2[THEN conjunct1]
  note th2_mk = th2[THEN conjunct2, THEN conjunct2, THEN conjunct1]
  note th2_bad = th2[THEN conjunct2, THEN conjunct2, THEN conjunct2, THEN conjunct2,
      THEN conjunct2, THEN conjunct2, THEN conjunct1]
  from th2_res have b1: "fst ?S = Return (Some (PathError ''open'' ''/tmp/a/b/app.log'' ENOENT))"
    by (simp add: v2)
  from th2_mk c2 h4 m2 have b2: "dirs (snd ?S) ''/tmp/a/b'' = Some (oct3 7 6 6)"
    by (simp add: log_dir_client_local)
  from th2_bad b1 have b3: "files (snd ?S) = files world_new"
    and b4: "loggers (snd ?S) = loggers world_new"
    by simp_all
  from h1 h2 r a1 a2 a3 r2 a4 b1 b2 b3 b4 show ?thesis by simp
qed



text \<open>
  C7 as stated fails for a call whose open fails: with \<open>MkdirAll\<close> denied the directory is
  not created, the file is neither created nor written and the file logger's prefix is not
  set.
\<close>

theorem file_sink_open_failure:
  "LogTarget client_local \<noteq> [] \<and> \<not> RemoteEnabled client_local
   \<and> fst (saveToLogFile env_denied client_local ''INFO'' ''hello'' world_new)
       = Return (Some (PathError ''open'' ''/tmp/a/b/app.log'' ENOENT))
   \<and> dirs (snd (saveToLogFile env_denied client_local ''INFO'' ''hello'' world_new))
        ''/tmp/a/b'' = None
   \<and> files (snd (saveToLogFile env_denied client_local ''INFO'' ''hello'' world_new))
        ''/tmp/a/b/app.log'' = None
   \<and> Logger_prefix (loggers (snd (saveToLogFile env_denied client_local ''INFO'' ''hello''
        world_new)) ! FileLogger client_local) = []"
proof -
  have h1: "LogTarget client_local \<noteq> []" and h0: "\<not> RemoteEnabled client_local"
    by (simp_all add: client_local_def)
  note f = saveToLogFile_fail[OF h1 open_denied, of "''INFO''" "''hello''"]
  have d: "dirs (snd (verifyLogDirectory env_denied (LogTarget client_local) world_new))
           = dirs world_new"
    by (simp add: verifyLogDirectory_dirs os_MkdirAll_def env_denied_def)
  show ?thesis
    using h1 h0
    by (simp add: f write_stdout_def verifyLogDirectory_frame d)
      (simp add: world_new_def client_local_def)
qed


text \<open>
  C8, as the code has it. The methods have value receivers and return no client, so the
  client's fields (owning service name, remote flag, log target and the two logger
  pointers) are what they were, and the client stays valid. Of the logger objects, a call of
  \<open>Info\<close>, \<open>Debug\<close>, \<open>Warn\<close> or \<open>Error\<close> changes these and no others: the prefix of the
  standard-output logger becomes \<open>"<LEVEL>: "\<close> on every call (its flags and output stay);
  the output and the prefix of the file logger are set exactly when the call is in local
  mode with a non-empty target and returns nil, that is when a line was written; the
  flags of the file logger stay. No logger is created or removed.
\<close>

theorem loggers_frame:
  assumes "(lvl, loc, m) \<in> set methods" and "valid_client lc w"
  shows "valid_client lc (snd (m env lc msg labels w))
       \<and> length (loggers (snd (m env lc msg labels w))) = length (loggers w)
       \<and> (\<forall>p. p < length (loggers w) \<and> p \<noteq> StdOutLogger lc \<and> p \<noteq> FileLogger lc
              \<longrightarrow> loggers (snd (m env lc msg labels w)) ! p = loggers w ! p)
       \<and> loggers (snd (m env lc msg labels w)) ! StdOutLogger lc
           = (loggers w ! StdOutLogger lc)\<lparr>Logger_prefix := string_of_LogLevel lvl @ '': ''\<rparr>
       \<and> loggers (snd (m env lc msg labels w)) ! FileLogger lc
           = (if \<not> RemoteEnabled lc \<and> LogTarget lc \<noteq> []
                 \<and> fst (m env lc msg labels w) = Return None
              then (loggers w ! FileLogger lc)
                     \<lparr>Logger_out := Some (FileWriter (Some (next_fd w))),
                      Logger_prefix := string_of_LogLevel lvl @ '': ''\<rparr>
              else loggers w ! FileLogger lc)"
proof -
  let ?w1 = "std_echo env lc (string_of_LogLevel lvl @ '': '') loc msg w"
  have m: "m env lc msg labels w = log env lc lvl msg labels ?w1"
    by (rule method_unfold[OF assms])
  from assms(2) have v: "StdOutLogger lc < length (loggers w)" "FileLogger lc < length (loggers w)"
    "StdOutLogger lc \<noteq> FileLogger lc" "Logger_out (loggers w ! StdOutLogger lc) = Some Stdout"
    by (simp_all add: valid_client_def)
  have l1: "loggers ?w1 = (loggers w)[StdOutLogger lc :=
              (loggers w ! StdOutLogger lc)\<lparr>Logger_prefix := string_of_LogLevel lvl @ '': ''\<rparr>]"
    and n1: "next_fd ?w1 = next_fd w"
    by (simp_all add: std_echo_def)
  have f1: "FileLogger lc < length (loggers ?w1)"
    using v by (simp add: l1)
  have L: "loggers (snd (m env lc msg labels w)) =
           (if \<not> RemoteEnabled lc \<and> LogTarget lc \<noteq> []
               \<and> fst (m env lc msg labels w) = Return None
            then (loggers ?w1)[FileLogger lc :=
                   (loggers ?w1 ! FileLogger lc)
                     \<lparr>Logger_out := Some (FileWriter (Some (next_fd w))),
                      Logger_prefix := string_of_LogLevel lvl @ '': ''\<rparr>]
            else loggers ?w1)"
    using log_loggers[OF f1, of env lvl msg labels] by (simp add: m n1)
  show ?thesis
    using v by (simp add: L l1 valid_client_def nth_list_update)
qed


theorem loggers_frame_witness:
  "NewClient ''svc'' False ''/tmp/a/b/app.log'' (world_new\<lparr>loggers := []\<rparr>)
     = (Return client_local, world_new)
   \<and> valid_client client_local world_new
   \<and> fst (Info env_ok client_local ''hello'' [] world_new) = Return None
   \<and> valid_client client_local (snd (Info env_ok client_local ''hello'' [] world_new))
   \<and> loggers (snd (Info env_ok client_local ''hello'' [] world_new)) ! StdOutLogger client_local
       = \<lparr>Logger_prefix = ''INFO: '', Logger_flag = std_flags, Logger_out = Some Stdout\<rparr>
   \<and> loggers (snd (Info env_ok client_local ''hello'' [] world_new)) ! FileLogger client_local
       = \<lparr>Logger_prefix = ''INFO: '', Logger_flag = std_flags,
          Logger_out = Some (FileWriter (Some 3))\<rparr>"
proof -
  let ?w1 = "std_echo env_ok client_local ''INFO: '' ''logger.go:107'' ''hello'' world_new"
  have h1: "(INFO, ''logger.go:107'', Info) \<in> set methods"
    by (simp add: methods_def)
  have h2: "valid_client client_local world_new"
    by (rule NewClient_valid[OF NewClient_world_new])
  have c: "\<not> RemoteEnabled client_local" "LogTarget client_local \<noteq> []"
    by (simp_all add: client_local_def)
  have fs: "dirs ?w1 = Map.empty" "files ?w1 = Map.empty"
    by (simp_all add: std_echo_def world_new_def)
  have fl: "FileLogger client_local < length (loggers ?w1)"
    using h2 by (simp add: valid_client_def std_echo_def)
  have r: "fst (Info env_ok client_local ''hello'' [] world_new) = Return None"
    by (simp add: method_unfold[OF h1 h2] log_eq c saveToLogFile_stdout(1)[OF c(2) fl]
        open_ok_local[OF fs])
  have l0: "loggers world_new ! StdOutLogger client_local
            = \<lparr>Logger_prefix = [], Logger_flag = std_flags, Logger_out = Some Stdout\<rparr>"
    and l1: "loggers world_new ! FileLogger client_local
            = \<lparr>Logger_prefix = [], Logger_flag = std_flags, Logger_out = None\<rparr>"
    and n: "next_fd world_new = 3"
    by (simp_all add: world_new_def client_local_def)
  from loggers_frame[OF h1 h2, of env_ok "''hello''" "[]"] h2 r NewClient_world_new
  show ?thesis
    by (simp add: c l0 l1 n)
qed

text \<open>
  C8 as stated fails: a call of \<open>Debug\<close> on a client with an empty target changes the
  prefix of the standard-output logger, which is not the file logger, and leaves the file
  logger's output and prefix as they were (they are not reset by this call).
\<close>

theorem stdout_prefix_mutated:
  "valid_client client_off world_new
   \<and> Logger_prefix (loggers world_new ! StdOutLogger client_off) = []
   \<and> Logger_prefix (loggers (snd (Debug env_ok client_off ''x'' [] world_new))
        ! StdOutLogger client_off) = ''DEBUG: ''
   \<and> loggers (snd (Debug env_ok client_off ''x'' [] world_new)) ! FileLogger client_off
       = loggers world_new ! FileLogger client_off"
proof -
  have h1: "(DEBUG, ''logger.go:119'', Debug) \<in> set methods"
    by (simp add: methods_def)
  have h2: "valid_client client_off world_new"
    by (simp add: valid_client_def client_off_def world_new_def)
  have h3: "LogTarget client_off = []"
    by (simp add: client_off_def)
  have d: "Debug env_ok client_off ''x'' [] world_new
           = (Return None, std_echo env_ok client_off ''DEBUG: '' ''logger.go:119'' ''x'' world_new)"
    by (simp add: method_unfold[OF h1 h2] log_empty[OF h3])
  show ?thesis
    using h2 by (simp add: d std_echo_def) (simp add: client_off_def world_new_def)
qed


end
